theory Spec2Isabelle
  imports Complex_Main
begin

section \<open>Data model (src/src/App.tsx)\<close>

text \<open>
  The scoring rules of the scoreboard live in the \<open>Scoreboard\<close> component (the third
  module of src/src/components/StatsViewer.tsx, lines 160-652) and in \<open>handleReset\<close> of
  src/src/components/Settings.tsx. Both work on the two \<open>Team\<close> cells and the
  \<open>GameSettings\<close> cell that \<open>App\<close> owns.

  \<open>GameSettings\<close>: the match format. Only the fields that describe rules are kept; the
  display fields (timer, clock, layout, sponsor, appearance, title, logo) are never read by a
  scoring handler. \<open>sets\<close> is typed \<open>3 | 5\<close> and is a number at run time.
\<close>

datatype GameType = tennis | padel

datatype MatchType = singles | doubles

record GameSettings =
  gameType :: GameType
  matchType :: MatchType
  sets :: int
  tiebreak :: bool
  championshipTiebreak :: bool
  goldenPoint :: bool

text \<open>
  \<open>Team.points\<close> is the union \<open>'0' | '15' | '30' | '40' | 'Ad'\<close>. The fields
  \<open>logo\<close>, \<open>tiebreakPoints\<close> and \<open>isServing\<close> are optional in the type
  (\<open>isServing?: boolean\<close>), so a missing flag is \<open>None\<close>.
\<close>

datatype Points = P0 | P15 | P30 | P40 | Ad

record Team =
  name :: string
  logo :: "string option"
  players :: "string list"
  sets :: int
  games :: int
  points :: Points
  tiebreakPoints :: "int option"
  isServing :: "bool option"

text \<open>The two \<open>useState<Team>\<close> cells of \<open>App\<close>.\<close>

record MatchState =
  team1 :: Team
  team2 :: Team

text \<open>The initial values of the cells (App.tsx, lines 107-165).\<close>

definition initialSettings :: GameSettings where
  "initialSettings =
     \<lparr>gameType = tennis, matchType = singles, sets = 3, tiebreak = True,
      championshipTiebreak = True, goldenPoint = False\<rparr>"

definition initialState :: MatchState where
  "initialState =
     \<lparr>team1 = \<lparr>name = ''Team 1'', logo = None, players = [''Player 1'', ''Player 2''],
                sets = 0, games = 0, points = P0, tiebreakPoints = Some 0,
                isServing = Some True\<rparr>,
      team2 = \<lparr>name = ''Team 2'', logo = None, players = [''Player 3'', ''Player 4''],
                sets = 0, games = 0, points = P0, tiebreakPoints = Some 0,
                isServing = Some False\<rparr>\<rparr>"

section \<open>State updates\<close>

text \<open>
  \<open>setTeam1(f)\<close> and \<open>setTeam2(f)\<close> with an updater function: React queues the
  updaters of one handler call and applies them in call order, each to the result of the
  one before. A handler is therefore the composition of its updaters on the state it was
  called in, and the values it reads from \<open>team1\<close> and \<open>team2\<close> are those of that
  state.
\<close>

definition setTeam1 :: "(Team \<Rightarrow> Team) \<Rightarrow> MatchState \<Rightarrow> MatchState" where
  "setTeam1 f s = s\<lparr>team1 := f (team1 s)\<rparr>"

definition setTeam2 :: "(Team \<Rightarrow> Team) \<Rightarrow> MatchState \<Rightarrow> MatchState" where
  "setTeam2 f s = s\<lparr>team2 := f (team2 s)\<rparr>"

text \<open>
  JavaScript's \<open>!x\<close> on an optional boolean: \<open>undefined\<close> is falsy. The updater
  \<open>t => ({ ...t, isServing: !t.isServing })\<close> is \<open>flipServing\<close>.
\<close>

definition js_not :: "bool option \<Rightarrow> bool" where
  "js_not x = (case x of Some True \<Rightarrow> False | _ \<Rightarrow> True)"

definition flipServing :: "Team \<Rightarrow> Team" where
  "flipServing t = t\<lparr>isServing := Some (js_not (isServing t))\<rparr>"

section \<open>addPoint (StatsViewer.tsx, lines 303-371)\<close>

text \<open>
  The selector is typed \<open>'team1' | 'team2'\<close>; the code compares it with \<open>'team1'\<close>
  only (\<open>team === 'team1' ? team1 : team2\<close>), so at run time every other string selects
  team 2. The four local constants of lines 304-307:
\<close>

definition currentTeam :: "string \<Rightarrow> MatchState \<Rightarrow> Team" where
  "currentTeam team s = (if team = ''team1'' then team1 s else team2 s)"

definition otherTeam :: "string \<Rightarrow> MatchState \<Rightarrow> Team" where
  "otherTeam team s = (if team = ''team1'' then team2 s else team1 s)"

definition setCurrentTeam :: "string \<Rightarrow> (Team \<Rightarrow> Team) \<Rightarrow> MatchState \<Rightarrow> MatchState" where
  "setCurrentTeam team = (if team = ''team1'' then setTeam1 else setTeam2)"

definition setOtherTeam :: "string \<Rightarrow> (Team \<Rightarrow> Team) \<Rightarrow> MatchState \<Rightarrow> MatchState" where
  "setOtherTeam team = (if team = ''team1'' then setTeam2 else setTeam1)"

text \<open>
  Lines 314-349, "Regular point scoring": the new values of the locals \<open>newPoints\<close> and
  \<open>newGames\<close>, and the state with the updaters queued so far applied. A game win resets
  the other team's points and flips both serving flags.
\<close>

definition regularPointScoring :: "string \<Rightarrow> MatchState \<Rightarrow> Points \<times> int \<times> MatchState" where
  "regularPointScoring team s =
     (if points (currentTeam team s) = P0 then (P15, games (currentTeam team s), s)
      else if points (currentTeam team s) = P15 then (P30, games (currentTeam team s), s)
      else if points (currentTeam team s) = P30 then (P40, games (currentTeam team s), s)
      else if points (currentTeam team s) = P40 then
        (if points (otherTeam team s) = Ad then
           (P40, games (currentTeam team s), setOtherTeam team (\<lambda>t. t\<lparr>points := P40\<rparr>) s)
         else if points (otherTeam team s) = P40 then
           (Ad, games (currentTeam team s), s)
         else
           (P0, games (currentTeam team s) + 1,
            setOtherTeam team flipServing
              (setCurrentTeam team flipServing
                (setOtherTeam team (\<lambda>t. t\<lparr>points := P0\<rparr>) s))))
      else if points (currentTeam team s) = Ad then
        (P0, games (currentTeam team s) + 1,
         setOtherTeam team flipServing
           (setCurrentTeam team flipServing
             (setOtherTeam team (\<lambda>t. t\<lparr>points := P0\<rparr>) s)))
      else (points (currentTeam team s), games (currentTeam team s), s))"

text \<open>
  The whole handler: the guard of lines 309-312 ("Don't allow points if match is over",
  which reads the awarded team's \<open>sets\<close> only), the point scoring, the set check of lines
  351-363 and the final update of the awarded team (lines 365-370). \<open>Math.ceil(settings.sets / 2)\<close>
  is the ceiling of a real quotient.
\<close>

definition addPoint :: "GameSettings \<Rightarrow> string \<Rightarrow> MatchState \<Rightarrow> MatchState" where
  "addPoint settings team s =
     (if sets (currentTeam team s) \<ge> \<lceil>real_of_int (GameSettings.sets settings) / 2\<rceil> then s
      else
        (let (newPoints, newGames, q) = regularPointScoring team s;
             newSets = sets (currentTeam team s)
         in if newGames \<ge> 6 \<and>
               (newGames \<ge> games (otherTeam team s) + 2 \<or>
                (newGames = 7 \<and> games (otherTeam team s) = 5))
            then setCurrentTeam team (\<lambda>t. t\<lparr>points := P0, games := 0, sets := newSets + 1\<rparr>)
                   (setOtherTeam team (\<lambda>t. t\<lparr>games := 0, points := P0\<rparr>) q)
            else setCurrentTeam team
                   (\<lambda>t. t\<lparr>points := newPoints, games := newGames, sets := newSets\<rparr>) q))"

section \<open>removePoint (StatsViewer.tsx, lines 373-386)\<close>

definition removePoint :: "string \<Rightarrow> MatchState \<Rightarrow> MatchState" where
  "removePoint team =
     (if team = ''team1'' then setTeam1 else setTeam2)
       (\<lambda>t. let newPoints =
                  (if points t = P15 then P0
                   else if points t = P30 then P15
                   else if points t = P40 then P30
                   else if points t = Ad then P40
                   else points t)
            in t\<lparr>points := newPoints\<rparr>)"

section \<open>Switching the server\<close>

text \<open>
  The "Switch Server" button (StatsViewer.tsx, lines 630-635) reads team 1's flag and writes
  both flags from it.
\<close>

definition switchServerButton :: "MatchState \<Rightarrow> MatchState" where
  "switchServerButton s =
     (let newServing = js_not (isServing (team1 s))
      in setTeam2 (\<lambda>t. t\<lparr>isServing := Some (\<not> newServing)\<rparr>)
           (setTeam1 (\<lambda>t. t\<lparr>isServing := Some newServing\<rparr>) s))"

text \<open>
  The five-finger gesture (\<open>handleGesture\<close>, case 5, lines 295-299) negates each team's own
  flag.
\<close>

definition switchServerGesture :: "MatchState \<Rightarrow> MatchState" where
  "switchServerGesture s = setTeam2 flipServing (setTeam1 flipServing s)"

section \<open>handleReset (Settings.tsx, lines 26-43)\<close>

definition handleReset :: "MatchState \<Rightarrow> MatchState" where
  "handleReset s =
     setTeam2 (\<lambda>t. t\<lparr>sets := 0, games := 0, points := P0, tiebreakPoints := Some 0,
                      isServing := Some False\<rparr>)
       (setTeam1 (\<lambda>t. t\<lparr>sets := 0, games := 0, points := P0, tiebreakPoints := Some 0,
                         isServing := Some True\<rparr>) s)"

section \<open>Sequences of points\<close>

text \<open>A finite sequence of \<open>addPoint\<close> calls, each on the state the one before left.\<close>

fun play :: "GameSettings \<Rightarrow> string list \<Rightarrow> MatchState \<Rightarrow> MatchState" where
  "play settings [] s = s"
| "play settings (team # rest) s = play settings rest (addPoint settings team s)"

section \<open>Example states and point sequences\<close>

text \<open>
  Team 2 has won two sets to love (48 points in a row) in a best-of-three match.
\<close>

definition afterTeam2Won :: MatchState where
  "afterTeam2Won = play initialSettings (replicate 48 ''team2'') initialState"

text \<open>A padel match with the golden point switched on in the settings form.\<close>

definition goldenSettings :: GameSettings where
  "goldenSettings = initialSettings\<lparr>gameType := padel, goldenPoint := True\<rparr>"

text \<open>Deuce in the first game; the same with team 1 at Advantage.\<close>

definition deuceState :: MatchState where
  "deuceState = initialState\<lparr>team1 := (team1 initialState)\<lparr>points := P40\<rparr>,
                              team2 := (team2 initialState)\<lparr>points := P40\<rparr>\<rparr>"

definition advantageState :: MatchState where
  "advantageState = deuceState\<lparr>team1 := (team1 deuceState)\<lparr>points := Ad\<rparr>\<rparr>"

text \<open>Deuce in a state where team 1 already leads six games to love.\<close>

definition sixLoveDeuce :: MatchState where
  "sixLoveDeuce = deuceState\<lparr>team1 := (team1 deuceState)\<lparr>games := 6\<rparr>\<rparr>"

text \<open>Team 1 at 40-30 leading five games to three; team 1 at 40-15 leading two games to one.\<close>

definition setPointState :: MatchState where
  "setPointState = initialState\<lparr>team1 := (team1 initialState)\<lparr>games := 5, points := P40\<rparr>,
                                 team2 := (team2 initialState)\<lparr>games := 3, points := P30\<rparr>\<rparr>"

definition gamePointState :: MatchState where
  "gamePointState = initialState\<lparr>team1 := (team1 initialState)\<lparr>games := 2, points := P40\<rparr>,
                                  team2 := (team2 initialState)\<lparr>games := 1, points := P15\<rparr>\<rparr>"

text \<open>
  Twelve love games, alternating, lead to six games all; team 1 then wins a love game (7-6)
  and three more points (40-0 at 7-6).
\<close>

definition sixAll :: "string list" where
  "sixAll = concat (replicate 6 (replicate 4 ''team1'' @ replicate 4 ''team2''))"

definition sevenSixGamePoint :: "string list" where
  "sevenSixGamePoint = sixAll @ replicate 4 ''team1'' @ replicate 3 ''team1''"

text \<open>Team 2 serving (as after any one game), and both flags set.\<close>

definition team2Serving :: MatchState where
  "team2Serving = initialState\<lparr>team1 := (team1 initialState)\<lparr>isServing := Some False\<rparr>,
                                team2 := (team2 initialState)\<lparr>isServing := Some True\<rparr>\<rparr>"

definition bothServing :: MatchState where
  "bothServing = initialState\<lparr>team2 := (team2 initialState)\<lparr>isServing := Some True\<rparr>\<rparr>"

section \<open>Boards that play reaches\<close>

text \<open>
  Two properties of the boards that points played from the initial state reach: a team that
  has reached the set threshold stands at points 0, and no team's game count already meets
  the set-win condition (six or more games and two ahead).
\<close>

definition regularBoard :: "GameSettings \<Rightarrow> MatchState \<Rightarrow> bool" where
  "regularBoard settings s =
     ((\<lceil>real_of_int (GameSettings.sets settings) / 2\<rceil> \<le> sets (team1 s) \<longrightarrow>
         points (team1 s) = P0) \<and>
      (\<lceil>real_of_int (GameSettings.sets settings) / 2\<rceil> \<le> sets (team2 s) \<longrightarrow>
         points (team2 s) = P0) \<and>
      \<not> (6 \<le> games (team1 s) \<and> games (team2 s) + 2 \<le> games (team1 s)) \<and>
      \<not> (6 \<le> games (team2 s) \<and> games (team1 s) + 2 \<le> games (team2 s)))"

section \<open>Basic facts\<close>

lemmas scoring_defs = addPoint_def regularPointScoring_def currentTeam_def otherTeam_def
  setCurrentTeam_def setOtherTeam_def setTeam1_def setTeam2_def flipServing_def js_not_def

lemmas example_defs = initialState_def initialSettings_def afterTeam2Won_def goldenSettings_def
  deuceState_def advantageState_def sixLoveDeuce_def setPointState_def
  gamePointState_def team2Serving_def bothServing_def

lemma ceil_half: "\<lceil>real_of_int n / 2\<rceil> = (n + 1) div 2"
  by linarith

text \<open>Reading a team back after an update of the same or of the other cell.\<close>

lemma currentTeam_setCurrentTeam [simp]:
  "currentTeam team (setCurrentTeam team f s) = f (currentTeam team s)"
  by (simp add: currentTeam_def setCurrentTeam_def setTeam1_def setTeam2_def)

lemma currentTeam_setOtherTeam [simp]:
  "currentTeam team (setOtherTeam team f s) = currentTeam team s"
  by (simp add: currentTeam_def setOtherTeam_def setTeam1_def setTeam2_def)

lemma otherTeam_setCurrentTeam [simp]:
  "otherTeam team (setCurrentTeam team f s) = otherTeam team s"
  by (simp add: otherTeam_def setCurrentTeam_def setTeam1_def setTeam2_def)

lemma otherTeam_setOtherTeam [simp]:
  "otherTeam team (setOtherTeam team f s) = f (otherTeam team s)"
  by (simp add: otherTeam_def setOtherTeam_def setTeam1_def setTeam2_def)

text \<open>Every selector other than \<open>'team1'\<close> picks the cells that \<open>'team2'\<close> picks.\<close>

lemma selectors_other_than_team1:
  assumes "team \<noteq> ''team1''"
  shows "currentTeam team = currentTeam ''team2''" and "otherTeam team = otherTeam ''team2''"
    and "setCurrentTeam team = setCurrentTeam ''team2''"
    and "setOtherTeam team = setOtherTeam ''team2''"
  using assms
  by (simp_all add: fun_eq_iff currentTeam_def otherTeam_def setCurrentTeam_def setOtherTeam_def)

text \<open>The guard: a team that has reached the threshold itself gets no more points.\<close>

lemma addPoint_guard:
  "\<lceil>real_of_int (GameSettings.sets settings) / 2\<rceil> \<le> sets (currentTeam team s) \<Longrightarrow>
     addPoint settings team s = s"
  by (simp add: addPoint_def)

text \<open>
  The two game-winning branches of the point scoring: from 40 against 0, 15 or 30, and from
  Advantage. They are the only branches that raise \<open>newGames\<close>.
\<close>

lemma regularPointScoring_game_win:
  assumes "(points (currentTeam team s) = P40 \<and> points (otherTeam team s) \<noteq> P40 \<and>
            points (otherTeam team s) \<noteq> Ad) \<or> points (currentTeam team s) = Ad"
  shows "regularPointScoring team s =
     (P0, games (currentTeam team s) + 1,
      setOtherTeam team flipServing
        (setCurrentTeam team flipServing (setOtherTeam team (\<lambda>t. t\<lparr>points := P0\<rparr>) s)))"
  using assms by (auto simp add: regularPointScoring_def)

lemma newGames_raised_iff:
  "(fst (snd (regularPointScoring team s)) = games (currentTeam team s) + 1) =
     ((points (currentTeam team s) = P40 \<and> points (otherTeam team s) \<noteq> P40 \<and>
       points (otherTeam team s) \<noteq> Ad) \<or> points (currentTeam team s) = Ad)"
  by (cases "points (currentTeam team s)") (simp_all add: regularPointScoring_def)

text \<open>
  The set check runs on every point, not only after a game win: at deuce with six games to
  love already on the board, a point ends the set.
\<close>

lemma set_check_without_game_win:
  "points (team1 sixLoveDeuce) = P40 \<and> points (team2 sixLoveDeuce) = P40 \<and>
   points (team1 (addPoint initialSettings ''team1'' sixLoveDeuce)) = P0 \<and>
   sets (team1 (addPoint initialSettings ''team1'' sixLoveDeuce)) = 1"
  by (simp add: scoring_defs example_defs ceil_half)

text \<open>
  A set count goes up only when the new game count is at least six and at least two more
  than the other team's. (The 7-5 disjunct of the source's condition is an instance.)
\<close>

lemma set_increment_needs_margin:
  assumes "sets (currentTeam team (addPoint settings team s)) = sets (currentTeam team s) + 1"
  shows "6 \<le> fst (snd (regularPointScoring team s)) \<and>
         games (otherTeam team s) + 2 \<le> fst (snd (regularPointScoring team s))"
proof (cases "\<lceil>real_of_int (GameSettings.sets settings) / 2\<rceil> \<le> sets (currentTeam team s)")
  case True
  then have "addPoint settings team s = s" by (rule addPoint_guard)
  with assms show ?thesis by simp
next
  case False
  obtain newPoints newGames q where r: "regularPointScoring team s = (newPoints, newGames, q)"
    by (cases "regularPointScoring team s") auto
  show ?thesis
  proof (cases "6 \<le> newGames \<and> (games (otherTeam team s) + 2 \<le> newGames \<or>
                  (newGames = 7 \<and> games (otherTeam team s) = 5))")
    case True
    then show ?thesis using r by auto
  next
    case no: False
    then have "sets (currentTeam team (addPoint settings team s)) = sets (currentTeam team s)"
      using False r by (auto simp add: addPoint_def Let_def)
    with assms show ?thesis by simp
  qed
qed

text \<open>\<open>removePoint\<close> is one update of the selected team's cell.\<close>

lemma removePoint_eq:
  "removePoint team =
     setCurrentTeam team
       (\<lambda>t. t\<lparr>points :=
              (if points t = P15 then P0
               else if points t = P30 then P15
               else if points t = P40 then P30
               else if points t = Ad then P40
               else points t)\<rparr>)"
  by (simp add: removePoint_def setCurrentTeam_def Let_def)

lemma removePoint_zero: "points (currentTeam team s) = P0 \<Longrightarrow> removePoint team s = s"
  by (cases "team = ''team1''")
     (simp_all add: removePoint_def currentTeam_def setTeam1_def setTeam2_def)

text \<open>The two ways to switch the server.\<close>

lemma switchServerButton_one_server:
  "(isServing (team1 (switchServerButton s)) = Some True) \<noteq>
   (isServing (team2 (switchServerButton s)) = Some True)"
  by (simp add: switchServerButton_def setTeam1_def setTeam2_def Let_def)

lemma switchServerGesture_flags:
  "isServing (team1 (switchServerGesture s)) = Some (js_not (isServing (team1 s))) \<and>
   isServing (team2 (switchServerGesture s)) = Some (js_not (isServing (team2 s)))"
  by (simp add: switchServerGesture_def flipServing_def setTeam1_def setTeam2_def)

text \<open>
  \<open>addPoint\<close> at deuce and at 40 against Advantage, for a team below the set threshold
  whose game count does not already meet the set-win condition.
\<close>

lemma addPoint_at_deuce:
  assumes "points (currentTeam team s) = P40" and "points (otherTeam team s) = P40"
    and "sets (currentTeam team s) < \<lceil>real_of_int (GameSettings.sets settings) / 2\<rceil>"
    and "\<not> (6 \<le> games (currentTeam team s) \<and>
             games (otherTeam team s) + 2 \<le> games (currentTeam team s))"
  shows "addPoint settings team s =
      setCurrentTeam team
        (\<lambda>t. t\<lparr>points := Ad, games := games (currentTeam team s),
                 sets := sets (currentTeam team s)\<rparr>) s"
proof -
  have r: "regularPointScoring team s = (Ad, games (currentTeam team s), s)"
    using assms(1,2) by (simp add: regularPointScoring_def)
  show ?thesis using assms(3,4) by (auto simp add: addPoint_def r Let_def)
qed

lemma addPoint_against_advantage:
  assumes "points (currentTeam team s) = P40" and "points (otherTeam team s) = Ad"
    and "sets (currentTeam team s) < \<lceil>real_of_int (GameSettings.sets settings) / 2\<rceil>"
    and "\<not> (6 \<le> games (currentTeam team s) \<and>
             games (otherTeam team s) + 2 \<le> games (currentTeam team s))"
  shows "addPoint settings team s =
      setCurrentTeam team
        (\<lambda>t. t\<lparr>points := P40, games := games (currentTeam team s),
                 sets := sets (currentTeam team s)\<rparr>)
        (setOtherTeam team (\<lambda>t. t\<lparr>points := P40\<rparr>) s)"
proof -
  have r: "regularPointScoring team s =
      (P40, games (currentTeam team s), setOtherTeam team (\<lambda>t. t\<lparr>points := P40\<rparr>) s)"
    using assms(1,2) by (simp add: regularPointScoring_def)
  show ?thesis using assms(3,4) by (auto simp add: addPoint_def r Let_def)
qed

text \<open>
  Every point keeps a board regular, so every board that \<open>play\<close> reaches from the initial
  state is regular, whatever the settings.
\<close>

lemma addPoint_regularBoard_team1:
  assumes "regularBoard settings s"
  shows "regularBoard settings (addPoint settings ''team1'' s)"
proof (cases "\<lceil>real_of_int (GameSettings.sets settings) / 2\<rceil> \<le> sets (team1 s)")
  case True
  then show ?thesis using assms by (simp add: addPoint_def currentTeam_def)
next
  case False
  show ?thesis
    using assms False
    by (cases "points (team1 s)"; cases "points (team2 s)")
       (auto simp add: regularBoard_def scoring_defs Let_def)
qed

lemma addPoint_regularBoard_team2:
  assumes "regularBoard settings s"
  shows "regularBoard settings (addPoint settings ''team2'' s)"
proof (cases "\<lceil>real_of_int (GameSettings.sets settings) / 2\<rceil> \<le> sets (team2 s)")
  case True
  then show ?thesis using assms by (simp add: addPoint_def currentTeam_def)
next
  case False
  show ?thesis
    using assms False
    by (cases "points (team1 s)"; cases "points (team2 s)")
       (auto simp add: regularBoard_def scoring_defs Let_def)
qed

lemma addPoint_regularBoard:
  "regularBoard settings s \<Longrightarrow> regularBoard settings (addPoint settings team s)"
proof (cases "team = ''team1''")
  case True
  assume "regularBoard settings s"
  then show ?thesis using True by (simp add: addPoint_regularBoard_team1)
next
  case False
  assume r: "regularBoard settings s"
  have "addPoint settings team s = addPoint settings ''team2'' s"
    by (simp only: addPoint_def regularPointScoring_def selectors_other_than_team1 [OF False])
  then show ?thesis using r by (simp add: addPoint_regularBoard_team2)
qed

lemma play_regularBoard:
  "regularBoard settings s \<Longrightarrow> regularBoard settings (play settings points_played s)"
  by (induction points_played arbitrary: s) (simp_all add: addPoint_regularBoard)

lemma initialState_regularBoard: "regularBoard settings initialState"
  by (simp add: regularBoard_def initialState_def)

lemma regularBoard_team:
  assumes "regularBoard settings s"
  shows "(\<lceil>real_of_int (GameSettings.sets settings) / 2\<rceil> \<le> sets (currentTeam team s) \<longrightarrow>
            points (currentTeam team s) = P0) \<and>
         \<not> (6 \<le> games (currentTeam team s) \<and>
            games (otherTeam team s) + 2 \<le> games (currentTeam team s))"
  using assms
  by (cases "team = ''team1''") (simp_all add: regularBoard_def currentTeam_def otherTeam_def)

text \<open>
  On every board that points played from the initial state reach, a team at 40 is below the
  set threshold and its game count does not meet the set-win condition; so there the deuce
  and advantage steps need no further condition.
\<close>

lemma deuce_steps_after_play:
  assumes "s = play settings points_played initialState"
    and "points (currentTeam team s) = P40"
  shows "(points (otherTeam team s) = P40 \<longrightarrow>
            currentTeam team (addPoint settings team s) = (currentTeam team s)\<lparr>points := Ad\<rparr> \<and>
            otherTeam team (addPoint settings team s) = otherTeam team s) \<and>
         (points (otherTeam team s) = Ad \<longrightarrow>
            currentTeam team (addPoint settings team s) = currentTeam team s \<and>
            otherTeam team (addPoint settings team s) = (otherTeam team s)\<lparr>points := P40\<rparr>)"
proof -
  have "regularBoard settings s"
    unfolding assms(1) by (rule play_regularBoard) (rule initialState_regularBoard)
  from regularBoard_team [OF this, of team] assms(2)
  have below: "sets (currentTeam team s) < \<lceil>real_of_int (GameSettings.sets settings) / 2\<rceil>"
    and margin: "\<not> (6 \<le> games (currentTeam team s) \<and>
             games (otherTeam team s) + 2 \<le> games (currentTeam team s))"
    by auto
  show ?thesis
  proof (intro conjI impI)
    assume o: "points (otherTeam team s) = P40"
    note a = addPoint_at_deuce [OF assms(2) o below margin]
    show "currentTeam team (addPoint settings team s) = (currentTeam team s)\<lparr>points := Ad\<rparr>"
      and "otherTeam team (addPoint settings team s) = otherTeam team s"
      by (simp_all add: a)
  next
    assume o: "points (otherTeam team s) = Ad"
    note a = addPoint_against_advantage [OF assms(2) o below margin]
    show "currentTeam team (addPoint settings team s) = currentTeam team s"
      and "otherTeam team (addPoint settings team s) = (otherTeam team s)\<lparr>points := P40\<rparr>"
      using assms(2) by (simp_all add: a)
  qed
qed

section \<open>C1: points after the match is over\<close>

text \<open>
  C1. The claim: once either team's set count has reached \<open>ceil(sets / 2)\<close>, awarding a
  point to any team leaves the state unchanged. The guard of \<open>addPoint\<close> reads the awarded
  team's set count only (\<open>addPoint_guard\<close>), so the team that lost the match can still
  score: after team 2 has won a best-of-three match two sets to love, team 2 is at the
  threshold, and a point for team 1 moves team 1 from 0 to 15.
\<close>

theorem point_awarded_after_match_won:
  "\<lceil>real_of_int (GameSettings.sets initialSettings) / 2\<rceil> \<le> sets (team2 afterTeam2Won) \<and>
   points (team1 afterTeam2Won) = P0 \<and>
   points (team1 (addPoint initialSettings ''team1'' afterTeam2Won)) = P15"
  by (simp add: scoring_defs example_defs ceil_half eval_nat_numeral)

section \<open>C2: deuce and the golden point\<close>

text \<open>
  C2, as claimed: at deuce with the golden point enabled, a point wins the game outright and
  never gives Advantage. \<open>addPoint\<close> never reads \<open>settings.goldenPoint\<close>: at deuce in a
  padel match with the golden point on, a point for team 1 gives team 1 Advantage and leaves
  its game count as it was.
\<close>

theorem golden_point_gives_advantage:
  "goldenPoint goldenSettings \<and>
   points (team1 deuceState) = P40 \<and> points (team2 deuceState) = P40 \<and>
   points (team1 (addPoint goldenSettings ''team1'' deuceState)) = Ad \<and>
   games (team1 (addPoint goldenSettings ''team1'' deuceState)) = games (team1 deuceState)"
  by (simp add: scoring_defs example_defs ceil_half)

text \<open>
  C2, amended: the result of \<open>addPoint\<close> does not depend on the golden-point setting, in
  any state and for any team. At deuce, with the golden point enabled or not, when the
  awarded team has not reached the set threshold and its game count does not already meet
  the set-win condition (six or more games and two ahead), a point gives the awarded team
  Advantage and changes nothing else: no field of the other team, and of the awarded team
  only \<open>points\<close>.
\<close>

theorem deuce_with_golden_point:
  "addPoint (settings\<lparr>goldenPoint := g\<rparr>) team s = addPoint settings team s \<and>
   (points (currentTeam team s) = P40 \<and> points (otherTeam team s) = P40 \<and>
    sets (currentTeam team s) < \<lceil>real_of_int (GameSettings.sets settings) / 2\<rceil> \<and>
    \<not> (6 \<le> games (currentTeam team s) \<and>
       games (otherTeam team s) + 2 \<le> games (currentTeam team s)) \<longrightarrow>
    currentTeam team (addPoint settings team s) = (currentTeam team s)\<lparr>points := Ad\<rparr> \<and>
    otherTeam team (addPoint settings team s) = otherTeam team s)"
proof (intro conjI impI)
  show "addPoint (settings\<lparr>goldenPoint := g\<rparr>) team s = addPoint settings team s"
    by (simp add: addPoint_def)
next
  assume h: "points (currentTeam team s) = P40 \<and> points (otherTeam team s) = P40 \<and>
    sets (currentTeam team s) < \<lceil>real_of_int (GameSettings.sets settings) / 2\<rceil> \<and>
    \<not> (6 \<le> games (currentTeam team s) \<and>
       games (otherTeam team s) + 2 \<le> games (currentTeam team s))"
  then have a: "addPoint settings team s =
      setCurrentTeam team
        (\<lambda>t. t\<lparr>points := Ad, games := games (currentTeam team s),
                 sets := sets (currentTeam team s)\<rparr>) s"
    by (intro addPoint_at_deuce) simp_all
  show "currentTeam team (addPoint settings team s) = (currentTeam team s)\<lparr>points := Ad\<rparr>"
    and "otherTeam team (addPoint settings team s) = otherTeam team s"
    by (simp_all add: a)
qed

text \<open>
  The amended C2 at deuce in the first game of a padel match with the golden point on:
  switching the golden point off gives the same result, and the point gives Advantage.
\<close>

theorem deuce_with_golden_point_witness:
  "goldenPoint goldenSettings \<and>
   addPoint (goldenSettings\<lparr>goldenPoint := False\<rparr>) ''team1'' deuceState =
     addPoint goldenSettings ''team1'' deuceState \<and>
   currentTeam ''team1'' (addPoint goldenSettings ''team1'' deuceState) =
     (currentTeam ''team1'' deuceState)\<lparr>points := Ad\<rparr> \<and>
   otherTeam ''team1'' (addPoint goldenSettings ''team1'' deuceState) =
     otherTeam ''team1'' deuceState"
  using deuce_with_golden_point
    [where settings = goldenSettings and g = False and team = "''team1''" and s = deuceState]
  by (simp add: currentTeam_def otherTeam_def example_defs ceil_half)

section \<open>C3: a game win and the set\<close>

text \<open>
  C3. When a point wins the game for the awarded team (it was at 40 against 0, 15 or 30, or
  at Advantage, which are the cases that raise \<open>newGames\<close> by \<open>newGames_raised_iff\<close>, and
  it has not reached the set threshold), \<open>newGames\<close> is its game count plus one, and its
  set count goes up by one exactly if \<open>newGames \<ge> 6\<close> and
  (\<open>newGames \<ge> other.games + 2\<close> or (\<open>newGames = 7\<close> and \<open>other.games = 5\<close>)). On such a set
  win both teams' games are 0 and both teams' points are 0 afterwards.
\<close>

theorem game_win_decides_set:
  assumes "sets (currentTeam team s) < \<lceil>real_of_int (GameSettings.sets settings) / 2\<rceil>"
    and "(points (currentTeam team s) = P40 \<and> points (otherTeam team s) \<noteq> P40 \<and>
          points (otherTeam team s) \<noteq> Ad) \<or> points (currentTeam team s) = Ad"
  shows "fst (snd (regularPointScoring team s)) = games (currentTeam team s) + 1 \<and>
    ((sets (currentTeam team (addPoint settings team s)) = sets (currentTeam team s) + 1) =
     (6 \<le> games (currentTeam team s) + 1 \<and>
      (games (otherTeam team s) + 2 \<le> games (currentTeam team s) + 1 \<or>
       (games (currentTeam team s) + 1 = 7 \<and> games (otherTeam team s) = 5)))) \<and>
    (6 \<le> games (currentTeam team s) + 1 \<and>
      (games (otherTeam team s) + 2 \<le> games (currentTeam team s) + 1 \<or>
       (games (currentTeam team s) + 1 = 7 \<and> games (otherTeam team s) = 5)) \<longrightarrow>
     sets (currentTeam team (addPoint settings team s)) = sets (currentTeam team s) + 1 \<and>
     games (currentTeam team (addPoint settings team s)) = 0 \<and>
     points (currentTeam team (addPoint settings team s)) = P0 \<and>
     games (otherTeam team (addPoint settings team s)) = 0 \<and>
     points (otherTeam team (addPoint settings team s)) = P0)"
proof -
  let ?won = "6 \<le> games (currentTeam team s) + 1 \<and>
      (games (otherTeam team s) + 2 \<le> games (currentTeam team s) + 1 \<or>
       (games (currentTeam team s) + 1 = 7 \<and> games (otherTeam team s) = 5))"
  note scored = regularPointScoring_game_win [OF assms(2)]
  have guard: "\<not> \<lceil>real_of_int (GameSettings.sets settings) / 2\<rceil> \<le> sets (currentTeam team s)"
    using assms(1) by simp
  have won: "sets (currentTeam team (addPoint settings team s)) = sets (currentTeam team s) + 1 \<and>
     games (currentTeam team (addPoint settings team s)) = 0 \<and>
     points (currentTeam team (addPoint settings team s)) = P0 \<and>
     games (otherTeam team (addPoint settings team s)) = 0 \<and>
     points (otherTeam team (addPoint settings team s)) = P0" if "?won"
    using that guard by (auto simp add: addPoint_def scored flipServing_def Let_def)
  have not_won: "sets (currentTeam team (addPoint settings team s)) = sets (currentTeam team s)"
    if "\<not> ?won"
    using that guard by (auto simp add: addPoint_def scored flipServing_def Let_def)
  have "fst (snd (regularPointScoring team s)) = games (currentTeam team s) + 1"
    by (simp add: scored)
  moreover have "(sets (currentTeam team (addPoint settings team s)) = sets (currentTeam team s) + 1)
      = ?won"
    using won not_won by (cases "?won") simp_all
  ultimately show ?thesis using won by blast
qed

text \<open>C3 at 40-30 and five games to three: the point wins the game and, at 6-3, the set.\<close>

theorem game_win_decides_set_witness:
  "fst (snd (regularPointScoring ''team1'' setPointState)) = 6 \<and>
   games (otherTeam ''team1'' setPointState) = 3 \<and>
   sets (currentTeam ''team1'' (addPoint initialSettings ''team1'' setPointState)) = 1 \<and>
   games (currentTeam ''team1'' (addPoint initialSettings ''team1'' setPointState)) = 0 \<and>
   points (currentTeam ''team1'' (addPoint initialSettings ''team1'' setPointState)) = P0 \<and>
   games (otherTeam ''team1'' (addPoint initialSettings ''team1'' setPointState)) = 0 \<and>
   points (otherTeam ''team1'' (addPoint initialSettings ''team1'' setPointState)) = P0"
  using game_win_decides_set [of "''team1''" setPointState initialSettings]
  by (simp add: currentTeam_def otherTeam_def example_defs ceil_half)

section \<open>C4: no set is won at 7-6\<close>

text \<open>
  C4, as claimed: some sequence of points from the initial state ends with a team winning a
  set at seven games to six. The game count at the moment of the set check is the local
  \<open>newGames\<close>, the second component of \<open>regularPointScoring\<close>; the other team's is
  \<open>otherTeam.games\<close>. No sequence does what is claimed: whatever the settings, the points
  played and the team, a point that brings the team's new game count to 7 against 6 does not
  raise its set count (7 is less than 6 + 2, and the other team is not at 5). The settings'
  \<open>tiebreak\<close> flag is never read by \<open>addPoint\<close>.
\<close>

theorem no_set_win_at_seven_six:
  "\<not> (\<exists>settings points_played team.
        fst (snd (regularPointScoring team (play settings points_played initialState))) = 7 \<and>
        games (otherTeam team (play settings points_played initialState)) = 6 \<and>
        sets (currentTeam team (addPoint settings team (play settings points_played initialState))) =
          sets (currentTeam team (play settings points_played initialState)) + 1)"
proof
  assume "\<exists>settings points_played team.
        fst (snd (regularPointScoring team (play settings points_played initialState))) = 7 \<and>
        games (otherTeam team (play settings points_played initialState)) = 6 \<and>
        sets (currentTeam team (addPoint settings team (play settings points_played initialState))) =
          sets (currentTeam team (play settings points_played initialState)) + 1"
  then obtain settings points_played team where
    seven: "fst (snd (regularPointScoring team (play settings points_played initialState))) = 7"
    and six: "games (otherTeam team (play settings points_played initialState)) = 6"
    and won: "sets (currentTeam team (addPoint settings team (play settings points_played initialState))) =
          sets (currentTeam team (play settings points_played initialState)) + 1"
    by blast
  from set_increment_needs_margin [OF won] seven six show False by simp
qed

text \<open>
  C4, amended: after any sequence of points from the initial state, a point raises a team's
  set count only if its new game count is at least six and at least two more than the other
  team's; and there is a sequence of points from the initial state after which the board
  shows seven games to six and the next point, which brings the new game count to eight,
  wins the set.
\<close>

theorem set_win_needs_two_game_lead:
  "(\<forall>settings points_played team.
      sets (currentTeam team (addPoint settings team (play settings points_played initialState))) =
        sets (currentTeam team (play settings points_played initialState)) + 1 \<longrightarrow>
      6 \<le> fst (snd (regularPointScoring team (play settings points_played initialState))) \<and>
      games (otherTeam team (play settings points_played initialState)) + 2
        \<le> fst (snd (regularPointScoring team (play settings points_played initialState)))) \<and>
   (\<exists>points_played.
      games (currentTeam ''team1'' (play initialSettings points_played initialState)) = 7 \<and>
      games (otherTeam ''team1'' (play initialSettings points_played initialState)) = 6 \<and>
      fst (snd (regularPointScoring ''team1'' (play initialSettings points_played initialState))) = 8 \<and>
      sets (currentTeam ''team1''
             (addPoint initialSettings ''team1'' (play initialSettings points_played initialState))) =
        sets (currentTeam ''team1'' (play initialSettings points_played initialState)) + 1)"
proof (intro conjI allI impI)
  fix settings points_played team
  assume "sets (currentTeam team (addPoint settings team (play settings points_played initialState))) =
        sets (currentTeam team (play settings points_played initialState)) + 1"
  from set_increment_needs_margin [OF this]
  show "6 \<le> fst (snd (regularPointScoring team (play settings points_played initialState)))"
    and "games (otherTeam team (play settings points_played initialState)) + 2
        \<le> fst (snd (regularPointScoring team (play settings points_played initialState)))"
    by simp_all
next
  have at: "play initialSettings sevenSixGamePoint initialState =
     initialState\<lparr>team1 := (team1 initialState)\<lparr>games := 7, points := P40, isServing := Some False\<rparr>,
                  team2 := (team2 initialState)\<lparr>games := 6, isServing := Some True\<rparr>\<rparr>"
    by (simp add: scoring_defs example_defs sixAll_def sevenSixGamePoint_def ceil_half
        eval_nat_numeral)
  show "\<exists>points_played.
      games (currentTeam ''team1'' (play initialSettings points_played initialState)) = 7 \<and>
      games (otherTeam ''team1'' (play initialSettings points_played initialState)) = 6 \<and>
      fst (snd (regularPointScoring ''team1'' (play initialSettings points_played initialState))) = 8 \<and>
      sets (currentTeam ''team1''
             (addPoint initialSettings ''team1'' (play initialSettings points_played initialState))) =
        sets (currentTeam ''team1'' (play initialSettings points_played initialState)) + 1"
    by (rule exI [of _ sevenSixGamePoint], simp only: at)
       (simp add: scoring_defs example_defs ceil_half)
qed

text \<open>
  The amended C4 on the sequence \<open>sevenSixGamePoint\<close>: the next point for team 1 raises its
  set count, with a new game count of eight against six.
\<close>

theorem set_win_needs_two_game_lead_witness:
  "sets (currentTeam ''team1''
          (addPoint initialSettings ''team1'' (play initialSettings sevenSixGamePoint initialState))) =
     sets (currentTeam ''team1'' (play initialSettings sevenSixGamePoint initialState)) + 1 \<and>
   fst (snd (regularPointScoring ''team1'' (play initialSettings sevenSixGamePoint initialState))) = 8 \<and>
   games (otherTeam ''team1'' (play initialSettings sevenSixGamePoint initialState)) = 6"
proof -
  have at: "play initialSettings sevenSixGamePoint initialState =
     initialState\<lparr>team1 := (team1 initialState)\<lparr>games := 7, points := P40, isServing := Some False\<rparr>,
                  team2 := (team2 initialState)\<lparr>games := 6, isServing := Some True\<rparr>\<rparr>"
    by (simp add: scoring_defs example_defs sixAll_def sevenSixGamePoint_def ceil_half
        eval_nat_numeral)
  have won: "sets (currentTeam ''team1''
          (addPoint initialSettings ''team1'' (play initialSettings sevenSixGamePoint initialState))) =
     sets (currentTeam ''team1'' (play initialSettings sevenSixGamePoint initialState)) + 1"
    by (simp only: at) (simp add: scoring_defs example_defs ceil_half)
  have eight: "fst (snd (regularPointScoring ''team1''
                  (play initialSettings sevenSixGamePoint initialState))) = 8"
    by (simp only: at) (simp add: scoring_defs example_defs)
  have six: "games (otherTeam ''team1'' (play initialSettings sevenSixGamePoint initialState)) = 6"
    by (simp only: at) (simp add: scoring_defs example_defs)
  from set_win_needs_two_game_lead won eight six show ?thesis by blast
qed

section \<open>C5: deuce and advantage\<close>

text \<open>
  C5. From deuce a point gives the awarded team Advantage and leaves the other team as it
  was, and from 40 against Advantage a point takes the other team back to 40 and leaves the
  awarded team at 40. In both transitions no other field of either team changes: games, sets
  and serving flags stay. The golden-point setting plays no role. The transitions are those
  of a point that is played: the awarded team has not already reached the set threshold
  (there the guard makes the call a no-op, \<open>addPoint_guard\<close>), and its game count does not
  already meet the set-win condition. Both conditions hold on every board that points played
  from the initial state reach (\<open>deuce_steps_after_play\<close>).
\<close>

theorem deuce_and_advantage:
  assumes "sets (currentTeam team s) < \<lceil>real_of_int (GameSettings.sets settings) / 2\<rceil>"
    and "\<not> (6 \<le> games (currentTeam team s) \<and>
             games (otherTeam team s) + 2 \<le> games (currentTeam team s))"
  shows "(points (currentTeam team s) = P40 \<and> points (otherTeam team s) = P40 \<longrightarrow>
            currentTeam team (addPoint settings team s) = (currentTeam team s)\<lparr>points := Ad\<rparr> \<and>
            otherTeam team (addPoint settings team s) = otherTeam team s) \<and>
         (points (currentTeam team s) = P40 \<and> points (otherTeam team s) = Ad \<longrightarrow>
            currentTeam team (addPoint settings team s) = currentTeam team s \<and>
            otherTeam team (addPoint settings team s) = (otherTeam team s)\<lparr>points := P40\<rparr>)"
proof (intro conjI impI)
  assume deuce: "points (currentTeam team s) = P40 \<and> points (otherTeam team s) = P40"
  then have r: "regularPointScoring team s = (Ad, games (currentTeam team s), s)"
    by (simp add: regularPointScoring_def)
  have "addPoint settings team s =
      setCurrentTeam team
        (\<lambda>t. t\<lparr>points := Ad, games := games (currentTeam team s),
                 sets := sets (currentTeam team s)\<rparr>) s"
    using assms by (auto simp add: addPoint_def r Let_def)
  then show "currentTeam team (addPoint settings team s) = (currentTeam team s)\<lparr>points := Ad\<rparr>"
    and "otherTeam team (addPoint settings team s) = otherTeam team s"
    by simp_all
next
  assume adv: "points (currentTeam team s) = P40 \<and> points (otherTeam team s) = Ad"
  then have r: "regularPointScoring team s =
      (P40, games (currentTeam team s), setOtherTeam team (\<lambda>t. t\<lparr>points := P40\<rparr>) s)"
    by (simp add: regularPointScoring_def)
  have "addPoint settings team s =
      setCurrentTeam team
        (\<lambda>t. t\<lparr>points := P40, games := games (currentTeam team s),
                 sets := sets (currentTeam team s)\<rparr>)
        (setOtherTeam team (\<lambda>t. t\<lparr>points := P40\<rparr>) s)"
    using assms by (auto simp add: addPoint_def r Let_def)
  then show "currentTeam team (addPoint settings team s) = currentTeam team s"
    and "otherTeam team (addPoint settings team s) = (otherTeam team s)\<lparr>points := P40\<rparr>"
    using adv by simp_all
qed

text \<open>
  C5 in the first game: a point for team 1 at deuce, and a point for team 2 when team 1 is
  at Advantage.
\<close>

theorem deuce_and_advantage_witness:
  "currentTeam ''team1'' (addPoint initialSettings ''team1'' deuceState) =
     (currentTeam ''team1'' deuceState)\<lparr>points := Ad\<rparr> \<and>
   otherTeam ''team1'' (addPoint initialSettings ''team1'' deuceState) =
     otherTeam ''team1'' deuceState \<and>
   currentTeam ''team2'' (addPoint initialSettings ''team2'' advantageState) =
     currentTeam ''team2'' advantageState \<and>
   otherTeam ''team2'' (addPoint initialSettings ''team2'' advantageState) =
     (otherTeam ''team2'' advantageState)\<lparr>points := P40\<rparr>"
  using deuce_and_advantage [of "''team1''" deuceState initialSettings]
    deuce_and_advantage [of "''team2''" advantageState initialSettings]
  by (simp add: currentTeam_def otherTeam_def example_defs ceil_half)

section \<open>C6: removePoint\<close>

text \<open>
  C6. \<open>removePoint\<close> for a team steps that team's points back along Ad, 40, 30, 15, 0 and
  changes no other field of that team and nothing of the other team; at 0 it changes
  nothing. In particular, right after a point that won the game for the team, \<open>removePoint\<close>
  for it changes nothing, and the team's game count stays different from the one before the
  winning point.
\<close>

theorem removePoint_only_steps_points_back:
  "currentTeam team (removePoint team s) =
     (currentTeam team s)\<lparr>points :=
        (case points (currentTeam team s) of
           Ad \<Rightarrow> P40 | P40 \<Rightarrow> P30 | P30 \<Rightarrow> P15 | P15 \<Rightarrow> P0 | P0 \<Rightarrow> P0)\<rparr> \<and>
   otherTeam team (removePoint team s) = otherTeam team s \<and>
   (points (currentTeam team s) = P0 \<longrightarrow> removePoint team s = s) \<and>
   (sets (currentTeam team s) < \<lceil>real_of_int (GameSettings.sets settings) / 2\<rceil> \<and>
    ((points (currentTeam team s) = P40 \<and> points (otherTeam team s) \<noteq> P40 \<and>
      points (otherTeam team s) \<noteq> Ad) \<or> points (currentTeam team s) = Ad) \<longrightarrow>
    removePoint team (addPoint settings team s) = addPoint settings team s \<and>
    games (currentTeam team (removePoint team (addPoint settings team s))) \<noteq>
      games (currentTeam team s))"
proof (intro conjI impI)
  show "currentTeam team (removePoint team s) =
     (currentTeam team s)\<lparr>points :=
        (case points (currentTeam team s) of
           Ad \<Rightarrow> P40 | P40 \<Rightarrow> P30 | P30 \<Rightarrow> P15 | P15 \<Rightarrow> P0 | P0 \<Rightarrow> P0)\<rparr>"
    by (cases "points (currentTeam team s)") (simp_all add: removePoint_eq)
  show "otherTeam team (removePoint team s) = otherTeam team s"
    by (simp add: removePoint_eq)
  show "removePoint team s = s" if "points (currentTeam team s) = P0"
    using that by (rule removePoint_zero)
  assume win: "sets (currentTeam team s) < \<lceil>real_of_int (GameSettings.sets settings) / 2\<rceil> \<and>
    ((points (currentTeam team s) = P40 \<and> points (otherTeam team s) \<noteq> P40 \<and>
      points (otherTeam team s) \<noteq> Ad) \<or> points (currentTeam team s) = Ad)"
  then have guard: "\<not> \<lceil>real_of_int (GameSettings.sets settings) / 2\<rceil> \<le> sets (currentTeam team s)"
    by simp
  from win have scored: "regularPointScoring team s =
     (P0, games (currentTeam team s) + 1,
      setOtherTeam team flipServing
        (setCurrentTeam team flipServing (setOtherTeam team (\<lambda>t. t\<lparr>points := P0\<rparr>) s)))"
    by (intro regularPointScoring_game_win) simp
  have after: "points (currentTeam team (addPoint settings team s)) = P0 \<and>
               games (currentTeam team (addPoint settings team s)) \<noteq> games (currentTeam team s)"
    using guard by (simp add: addPoint_def scored Let_def)
  then show same: "removePoint team (addPoint settings team s) = addPoint settings team s"
    by (simp add: removePoint_zero)
  show "games (currentTeam team (removePoint team (addPoint settings team s))) \<noteq>
      games (currentTeam team s)"
    using after by (simp only: same) simp
qed

text \<open>
  C6 at the initial state (points 0) and at 40-15 with two games to one: the point wins the
  game (three games), and \<open>removePoint\<close> leaves the three games on the board.
\<close>

theorem removePoint_only_steps_points_back_witness:
  "removePoint ''team1'' initialState = initialState \<and>
   games (currentTeam ''team1'' gamePointState) = 2 \<and>
   games (currentTeam ''team1'' (addPoint initialSettings ''team1'' gamePointState)) = 3 \<and>
   removePoint ''team1'' (addPoint initialSettings ''team1'' gamePointState) =
     addPoint initialSettings ''team1'' gamePointState \<and>
   games (currentTeam ''team1''
           (removePoint ''team1'' (addPoint initialSettings ''team1'' gamePointState))) \<noteq> 2"
proof -
  have a: "games (currentTeam ''team1'' (addPoint initialSettings ''team1'' gamePointState)) = 3"
    by (simp add: scoring_defs example_defs ceil_half)
  from removePoint_only_steps_points_back [of "''team1''" initialState initialSettings]
    removePoint_only_steps_points_back [of "''team1''" gamePointState initialSettings]
    a
  show ?thesis
    by (simp add: currentTeam_def otherTeam_def example_defs ceil_half)
qed

section \<open>C7: handleReset\<close>

text \<open>
  C7, as claimed: the reset leaves both serving flags as they were. \<open>handleReset\<close> writes
  the flags: from a state in which team 2 serves, the reset makes team 1 the server.
\<close>

theorem handleReset_reassigns_server:
  "isServing (team1 team2Serving) = Some False \<and> isServing (team2 team2Serving) = Some True \<and>
   isServing (team1 (handleReset team2Serving)) = Some True \<and>
   isServing (team2 (handleReset team2Serving)) = Some False"
  by (simp add: handleReset_def setTeam1_def setTeam2_def example_defs)

text \<open>
  C7, amended: for every state, the reset returns both teams to points 0, games 0, sets 0
  and tiebreak points 0, and makes team 1 the server and team 2 the receiver, whatever the
  flags were; names, logos and players stay.
\<close>

theorem handleReset_scores_and_server:
  "points (team1 (handleReset s)) = P0 \<and> games (team1 (handleReset s)) = 0 \<and>
   sets (team1 (handleReset s)) = 0 \<and> tiebreakPoints (team1 (handleReset s)) = Some 0 \<and>
   points (team2 (handleReset s)) = P0 \<and> games (team2 (handleReset s)) = 0 \<and>
   sets (team2 (handleReset s)) = 0 \<and> tiebreakPoints (team2 (handleReset s)) = Some 0 \<and>
   isServing (team1 (handleReset s)) = Some True \<and>
   isServing (team2 (handleReset s)) = Some False \<and>
   name (team1 (handleReset s)) = name (team1 s) \<and>
   logo (team1 (handleReset s)) = logo (team1 s) \<and>
   players (team1 (handleReset s)) = players (team1 s) \<and>
   name (team2 (handleReset s)) = name (team2 s) \<and>
   logo (team2 (handleReset s)) = logo (team2 s) \<and>
   players (team2 (handleReset s)) = players (team2 s)"
  by (simp add: handleReset_def setTeam1_def setTeam2_def)

section \<open>C8: switching the server\<close>

text \<open>
  C8. The claim: after a server switch exactly one team serves, also when both flags were
  equal before. The button does that (\<open>switchServerButton_one_server\<close>). The five-finger
  gesture negates each flag on its own (\<open>switchServerGesture_flags\<close>): from a state in which
  both teams are flagged as serving it leaves no team serving.
\<close>

theorem gesture_switch_keeps_equal_flags:
  "isServing (team1 bothServing) = Some True \<and> isServing (team2 bothServing) = Some True \<and>
   isServing (team1 (switchServerGesture bothServing)) = Some False \<and>
   isServing (team2 (switchServerGesture bothServing)) = Some False"
  by (simp add: switchServerGesture_def flipServing_def js_not_def setTeam1_def setTeam2_def
      example_defs)

section \<open>C9: the team selector\<close>

text \<open>
  C9, as claimed: a selector that is neither team fails with an error and leaves the state
  as it was. \<open>addPoint\<close> has no error result, and a selector other than \<open>'team1'\<close> scores
  for team 2: from the initial state, \<open>'team3'\<close> moves team 2 from 0 to 15.
\<close>

theorem unknown_selector_scores_for_team2:
  "points (team2 initialState) = P0 \<and>
   points (team2 (addPoint initialSettings ''team3'' initialState)) = P15 \<and>
   addPoint initialSettings ''team3'' initialState \<noteq> initialState"
  by (simp add: scoring_defs example_defs ceil_half)

text \<open>
  C9, amended: \<open>addPoint\<close> always returns a state, and with a selector other than
  \<open>'team1'\<close> it returns the state that \<open>'team2'\<close> gives.
\<close>

theorem selector_other_than_team1_is_team2:
  assumes "team \<noteq> ''team1''"
  shows "addPoint settings team s = addPoint settings ''team2'' s"
  by (simp only: addPoint_def regularPointScoring_def selectors_other_than_team1 [OF assms])

text \<open>The amended C9 for the selector \<open>'team3'\<close> at the initial state.\<close>

theorem selector_other_than_team1_is_team2_witness:
  "''team3'' \<noteq> ''team1'' \<and>
   addPoint initialSettings ''team3'' initialState = addPoint initialSettings ''team2'' initialState"
  using selector_other_than_team1_is_team2 [of "''team3''" initialSettings initialState]
  by simp

section \<open>C10: removePoint after addPoint\<close>

text \<open>
  C10. In a state in which neither team has reached the set threshold, the awarded team's
  points are 0, 15 or 30 and its game count is below 6, \<open>removePoint\<close> after \<open>addPoint\<close>
  for the same team gives the state back, equal in every field of both teams.
\<close>

theorem removePoint_undoes_addPoint:
  assumes "sets (team1 s) < \<lceil>real_of_int (GameSettings.sets settings) / 2\<rceil>"
    and "sets (team2 s) < \<lceil>real_of_int (GameSettings.sets settings) / 2\<rceil>"
    and "points (currentTeam team s) \<in> {P0, P15, P30}"
    and "games (currentTeam team s) < 6"
  shows "removePoint team (addPoint settings team s) = s"
proof -
  have guard: "\<not> \<lceil>real_of_int (GameSettings.sets settings) / 2\<rceil> \<le> sets (currentTeam team s)"
    using assms(1,2) by (simp add: currentTeam_def)
  obtain p where r: "regularPointScoring team s = (p, games (currentTeam team s), s)"
    and p: "(points (currentTeam team s) = P0 \<and> p = P15) \<or>
            (points (currentTeam team s) = P15 \<and> p = P30) \<or>
            (points (currentTeam team s) = P30 \<and> p = P40)"
    using assms(3) by (auto simp add: regularPointScoring_def)
  have a: "addPoint settings team s =
      setCurrentTeam team
        (\<lambda>t. t\<lparr>points := p, games := games (currentTeam team s),
                 sets := sets (currentTeam team s)\<rparr>) s"
    using guard assms(4) by (simp add: addPoint_def r Let_def)
  show ?thesis
    unfolding a removePoint_eq using p
    by (cases "team = ''team1''")
       (auto simp add: setCurrentTeam_def setTeam1_def setTeam2_def currentTeam_def)
qed

text \<open>C10 at the initial state of the default best-of-three match.\<close>

theorem removePoint_undoes_addPoint_witness:
  "removePoint ''team1'' (addPoint initialSettings ''team1'' initialState) = initialState"
  using removePoint_undoes_addPoint [of initialState initialSettings "''team1''"]
  by (simp add: currentTeam_def example_defs ceil_half)

end
